theory Spec2Isabelle
  imports Main
begin

section \<open>The trie of p0\_trie.h\<close>

text \<open>
  A stored value carries its C++ type: \<open>TrieNodeWithValue<int>\<close> and
  \<open>TrieNodeWithValue<std::string>\<close> are the two instantiations used below. A node is
  one record for both classes: the field \<open>node_value\<close> (the \<open>value_\<close> of the subclass) is \<open>None\<close> for a plain \<open>TrieNode\<close> and
  \<open>Some v\<close> for a \<open>TrieNodeWithValue\<close>. The \<open>unordered_map\<close> of children is an
  association list with one entry per key character.
\<close>

datatype tval = IntV int | StrV string

datatype ty = TInt | TStr

fun type_of :: "tval \<Rightarrow> ty" where
  "type_of (IntV _) = TInt"
| "type_of (StrV _) = TStr"

text \<open>The value-initialised \<open>T\<close> that \<open>return {}\<close> produces.\<close>

fun default_of :: "ty \<Rightarrow> tval" where
  "default_of TInt = IntV 0"
| "default_of TStr = StrV []"

datatype TrieNode =
  TrieNode (key_char: char) (is_end: bool) (node_value: "tval option") (children: "(char \<times> TrieNode) list")

datatype trie_error = OutOfRange | NullPointer

definition HasChildren :: "TrieNode \<Rightarrow> bool" where
  "HasChildren n = (children n \<noteq> [])"

definition IsEndNode :: "TrieNode \<Rightarrow> bool" where
  "IsEndNode n = is_end n"

definition GetChildNode :: "TrieNode \<Rightarrow> char \<Rightarrow> TrieNode option" where
  "GetChildNode n c = map_of (children n) c"

text \<open>\<open>InsertChildNode\<close> returns \<open>nullptr\<close> (here \<open>None\<close>) when the child's key differs
  from \<open>key_char\<close> or the slot is taken; otherwise the parent with the child added.\<close>

definition InsertChildNode :: "TrieNode \<Rightarrow> char \<Rightarrow> TrieNode \<Rightarrow> TrieNode option" where
  "InsertChildNode n c child =
     (if key_char child \<noteq> c then None
      else if map_of (children n) c \<noteq> None then None
      else Some (TrieNode (key_char n) (is_end n) (node_value n) (children n @ [(c, child)])))"

definition RemoveChildNode :: "TrieNode \<Rightarrow> char \<Rightarrow> TrieNode" where
  "RemoveChildNode n c =
     TrieNode (key_char n) (is_end n) (node_value n) (filter (\<lambda>kv. fst kv \<noteq> c) (children n))"

text \<open>A write through the pointer that \<open>GetChildNode\<close> returned: the child stored
  under \<open>c\<close> is replaced where it stands.\<close>

definition StoreChildNode :: "TrieNode \<Rightarrow> char \<Rightarrow> TrieNode \<Rightarrow> TrieNode" where
  "StoreChildNode n c child =
     TrieNode (key_char n) (is_end n) (node_value n)
       (map (\<lambda>kv. if fst kv = c then (c, child) else kv) (children n))"

text \<open>\<open>Trie::Insert\<close>: the loop over the key, the pointer \<open>t\<close> being the node the
  function is applied to. The result is the returned flag and the node after the writes.\<close>

fun Insert_loop :: "TrieNode \<Rightarrow> string \<Rightarrow> tval \<Rightarrow> trie_error + (bool \<times> TrieNode)" where
  "Insert_loop t [] v = Inr (True, t)"
| "Insert_loop t (c # cs) v =
     (case GetChildNode t c of
        None \<Rightarrow>
          (if cs \<noteq> [] then
             (case InsertChildNode t c (TrieNode c False None []) of
                None \<Rightarrow> Inl NullPointer
              | Some t1 \<Rightarrow>
                  (case Insert_loop (TrieNode c False None []) cs v of
                     Inl e \<Rightarrow> Inl e
                   | Inr (r, child) \<Rightarrow> Inr (r, StoreChildNode t1 c child)))
           else
             (case InsertChildNode t c (TrieNode c True (Some v) []) of
                None \<Rightarrow> Inl NullPointer
              | Some t1 \<Rightarrow> Inr (True, t1)))
      | Some node \<Rightarrow>
          (if cs = [] then
             (if IsEndNode node then Inr (False, t)
              else
                (case InsertChildNode (RemoveChildNode t c) c
                        (TrieNode (key_char node) True (Some v) (children node)) of
                   None \<Rightarrow> Inl NullPointer
                 | Some t1 \<Rightarrow> Inr (True, t1)))
           else
             (case Insert_loop node cs v of
                Inl e \<Rightarrow> Inl e
              | Inr (r, child) \<Rightarrow> Inr (r, StoreChildNode t c child))))"

definition Insert_trie :: "TrieNode \<Rightarrow> string \<Rightarrow> tval \<Rightarrow> trie_error + (bool \<times> TrieNode)" where
  "Insert_trie root key v = (if key = [] then Inr (False, root) else Insert_loop root key v)"

text \<open>\<open>Trie::RemoveHelper(root, key, i)\<close>, the second argument being the key from
  position \<open>i\<close> on. \<open>key.at(i)\<close> throws \<open>std::out_of_range\<close> on the empty key.\<close>

fun RemoveHelper :: "TrieNode \<Rightarrow> string \<Rightarrow> trie_error + (bool \<times> TrieNode)" where
  "RemoveHelper root [] = Inl OutOfRange"
| "RemoveHelper root (c # cs) =
     (case GetChildNode root c of
        None \<Rightarrow> Inr (False, root)
      | Some node \<Rightarrow>
          (if cs \<noteq> [] then
             (case RemoveHelper node cs of
                Inl e \<Rightarrow> Inl e
              | Inr (flag, node') \<Rightarrow>
                  (let root1 = StoreChildNode root c node' in
                   (case GetChildNode root1 c of
                      None \<Rightarrow> Inr (flag, root1)
                    | Some tmp \<Rightarrow>
                        (if \<not> IsEndNode tmp \<and> \<not> HasChildren tmp
                         then Inr (flag, RemoveChildNode root1 c)
                         else Inr (flag, root1)))))
           else
             (if IsEndNode node then
                (if HasChildren node then
                   (case InsertChildNode (RemoveChildNode root c) c node of
                      None \<Rightarrow> Inr (True, RemoveChildNode root c)
                    | Some root1 \<Rightarrow> Inr (True, root1))
                 else Inr (True, RemoveChildNode root c))
              else Inr (False, root))))"

definition Remove_trie :: "TrieNode \<Rightarrow> string \<Rightarrow> trie_error + (bool \<times> TrieNode)" where
  "Remove_trie root key = RemoveHelper root key"

text \<open>The walk of \<open>GetValue\<close>: \<open>None\<close> when a child is missing.\<close>

fun walk :: "TrieNode \<Rightarrow> string \<Rightarrow> TrieNode option" where
  "walk t [] = Some t"
| "walk t (c # cs) = (case GetChildNode t c of None \<Rightarrow> None | Some node \<Rightarrow> walk node cs)"

text \<open>\<open>Trie::GetValue<T>(key, &success)\<close> as the pair (returned value, \<open>*success\<close>).
  The \<open>dynamic_cast\<close> to \<open>TrieNodeWithValue<T>\<close> succeeds exactly on a node that
  holds a value of type \<open>T\<close>.\<close>

definition GetValue_trie :: "ty \<Rightarrow> TrieNode \<Rightarrow> string \<Rightarrow> tval \<times> bool" where
  "GetValue_trie T root key =
     (if key = [] then (default_of T, False)
      else
        (case walk root key of
           None \<Rightarrow> (default_of T, False)
         | Some t \<Rightarrow>
             (if \<not> IsEndNode t then (default_of T, False)
              else
                (case node_value t of
                   None \<Rightarrow> (default_of T, False)
                 | Some v \<Rightarrow>
                     (if type_of v \<noteq> T then (default_of T, False) else (v, True))))))"

definition Trie_new :: TrieNode where
  "Trie_new = TrieNode (CHR 0x00) False None []"


section \<open>The B+ tree: pages and the buffer pool\<close>

text \<open>
  Keys are integers compared by \<open><\<close> (the injected comparator on
  \<open>GenericKey\<close> built by \<open>SetFromInteger\<close>); a value is the integer that \<open>RID(int64)\<close>
  decodes; page ids are integers, \<open>INVALID_PAGE_ID\<close> is \<open>-1\<close>.

  A tree page is a record of its header fields and of its slot array, the keys and the
  values (record ids in a leaf, child page ids in an internal page) side by side. The
  slot array lives in the page frame and is larger than \<open>max_size\<close>: a slot beyond
  \<open>size\<close> keeps what was last written there, and a slot never written reads 0.

  The buffer pool is the list of frames, a page id being its position. Page 0 is the header
  page, allocated by the caller before the tree is opened; \<open>NewPageGuarded\<close> hands out
  1, 2, ... in order. One caller runs at a time: a page guard is the id of its page, and
  latches and pins are not part of the model.
\<close>

type_synonym page_id_t = int
type_synonym KeyType = int
type_synonym ValueType = int

definition INVALID_PAGE_ID :: page_id_t where
  "INVALID_PAGE_ID = -1"

datatype IndexPageType = INVALID_INDEX_PAGE | LEAF_PAGE | INTERNAL_PAGE

record Page =
  page_type :: IndexPageType
  size :: int
  max_size :: int
  next_page_id :: page_id_t
  keys :: "KeyType list"
  vals :: "int list"

record BPlusTree =
  leaf_max_size :: int
  internal_max_size :: int
  root_page_id :: page_id_t
  pages :: "Page list"

datatype error = AssertionFailed | NoReturn | BadPageId | WrongPageKind

definition array_get :: "int list \<Rightarrow> int \<Rightarrow> int" where
  "array_get xs i = (if 0 \<le> i \<and> nat i < length xs then xs ! nat i else 0)"

definition array_set :: "int list \<Rightarrow> int \<Rightarrow> int \<Rightarrow> int list" where
  "array_set xs i v =
     (if i < 0 then xs
      else if nat i < length xs then xs[nat i := v]
      else xs @ replicate (nat i - length xs) 0 @ [v])"

definition blank_page :: Page where
  "blank_page = \<lparr>page_type = INVALID_INDEX_PAGE, size = 0, max_size = 0,
                  next_page_id = 0, keys = [], vals = []\<rparr>"

definition valid_page :: "BPlusTree \<Rightarrow> page_id_t \<Rightarrow> bool" where
  "valid_page t pid = (0 < pid \<and> nat pid < length (pages t))"

definition page_at :: "BPlusTree \<Rightarrow> page_id_t \<Rightarrow> Page" where
  "page_at t pid = (if valid_page t pid then pages t ! nat pid else blank_page)"

definition put_page :: "BPlusTree \<Rightarrow> page_id_t \<Rightarrow> Page \<Rightarrow> BPlusTree" where
  "put_page t pid p = (if valid_page t pid then t\<lparr>pages := (pages t)[nat pid := p]\<rparr> else t)"

text \<open>The accessors of \<open>BPlusTreePage\<close>, \<open>BPlusTreeLeafPage\<close> and
  \<open>BPlusTreeInternalPage\<close>, applied to the page a pointer refers to.\<close>

definition IsLeafPage :: "BPlusTree \<Rightarrow> page_id_t \<Rightarrow> bool" where
  "IsLeafPage t pid = (page_type (page_at t pid) = LEAF_PAGE)"

definition GetSize :: "BPlusTree \<Rightarrow> page_id_t \<Rightarrow> int" where
  "GetSize t pid = size (page_at t pid)"

definition GetMaxSize :: "BPlusTree \<Rightarrow> page_id_t \<Rightarrow> int" where
  "GetMaxSize t pid = max_size (page_at t pid)"

text \<open>Modelled from the spec: \<open>GetMinSize\<close> is declared in b\_plus\_tree\_page.h, which is
  not among the sources; the spec gives \<open>min_size = \<lceil>max_size/2\<rceil>\<close> for both page kinds.\<close>

definition GetMinSize :: "BPlusTree \<Rightarrow> page_id_t \<Rightarrow> int" where
  "GetMinSize t pid = (max_size (page_at t pid) + 1) div 2"

definition IncreaseSize :: "BPlusTree \<Rightarrow> page_id_t \<Rightarrow> int \<Rightarrow> BPlusTree" where
  "IncreaseSize t pid amount = put_page t pid ((page_at t pid)\<lparr>size := size (page_at t pid) + amount\<rparr>)"

definition KeyAt :: "BPlusTree \<Rightarrow> page_id_t \<Rightarrow> int \<Rightarrow> KeyType" where
  "KeyAt t pid i = array_get (keys (page_at t pid)) i"

definition ValueAt :: "BPlusTree \<Rightarrow> page_id_t \<Rightarrow> int \<Rightarrow> int" where
  "ValueAt t pid i = array_get (vals (page_at t pid)) i"

definition SetKeyAt :: "BPlusTree \<Rightarrow> page_id_t \<Rightarrow> int \<Rightarrow> KeyType \<Rightarrow> BPlusTree" where
  "SetKeyAt t pid i k = put_page t pid ((page_at t pid)\<lparr>keys := array_set (keys (page_at t pid)) i k\<rparr>)"

definition SetValueAt :: "BPlusTree \<Rightarrow> page_id_t \<Rightarrow> int \<Rightarrow> int \<Rightarrow> BPlusTree" where
  "SetValueAt t pid i v = put_page t pid ((page_at t pid)\<lparr>vals := array_set (vals (page_at t pid)) i v\<rparr>)"

definition GetNextPageId :: "BPlusTree \<Rightarrow> page_id_t \<Rightarrow> page_id_t" where
  "GetNextPageId t pid = next_page_id (page_at t pid)"

definition SetNextPageId :: "BPlusTree \<Rightarrow> page_id_t \<Rightarrow> page_id_t \<Rightarrow> BPlusTree" where
  "SetNextPageId t pid n = put_page t pid ((page_at t pid)\<lparr>next_page_id := n\<rparr>)"

text \<open>Modelled from the spec: the two \<open>Init\<close> functions are defined in the page classes,
  which are not among the sources. A leaf starts with no entry and no successor. An internal
  page starts with size 1, the slot of \<open>child[0]\<close>: the spec's root split ends with
  \<open>size = 2\<close> after the single \<open>IncreaseSize(1)\<close> of the code.\<close>

definition Init_leaf :: "BPlusTree \<Rightarrow> page_id_t \<Rightarrow> int \<Rightarrow> BPlusTree" where
  "Init_leaf t pid m =
     put_page t pid ((page_at t pid)\<lparr>page_type := LEAF_PAGE, size := 0, max_size := m,
                                      next_page_id := INVALID_PAGE_ID\<rparr>)"

definition Init_internal :: "BPlusTree \<Rightarrow> page_id_t \<Rightarrow> int \<Rightarrow> BPlusTree" where
  "Init_internal t pid m =
     put_page t pid ((page_at t pid)\<lparr>page_type := INTERNAL_PAGE, size := 1, max_size := m\<rparr>)"

text \<open>\<open>bpm_->NewPageGuarded(&page_id)\<close>: the next id and a zeroed frame.\<close>

definition NewPageGuarded :: "BPlusTree \<Rightarrow> page_id_t \<times> BPlusTree" where
  "NewPageGuarded t = (int (length (pages t)), t\<lparr>pages := pages t @ [blank_page]\<rparr>)"

text \<open>The constructor: the header page holds \<open>INVALID_PAGE_ID\<close>.\<close>

definition BPlusTree_new :: "int \<Rightarrow> int \<Rightarrow> BPlusTree" where
  "BPlusTree_new leaf_max internal_max =
     \<lparr>leaf_max_size = leaf_max, internal_max_size = internal_max,
      root_page_id = INVALID_PAGE_ID, pages = [blank_page]\<rparr>"

text \<open>Integer division of C++, which rounds towards zero.\<close>

definition c_div :: "int \<Rightarrow> int \<Rightarrow> int" where
  "c_div a b = sgn a * sgn b * (\<bar>a\<bar> div \<bar>b\<bar>)"

text \<open>A descent that visits more pages than the pool holds visits one of them twice and
  then goes round for ever; the loops that walk down the tree get this many steps and
  report \<open>NoReturn\<close> when they are used up.\<close>

definition fuel_of :: "BPlusTree \<Rightarrow> nat" where
  "fuel_of t = Suc (length (pages t))"

section \<open>The B+ tree: loops over the slots of a page\<close>

text \<open>\<open>dst->SetKeyAt(di, src->KeyAt(si)); dst->SetValueAt(di, src->ValueAt(si));\<close>\<close>

definition copy_slot :: "BPlusTree \<Rightarrow> page_id_t \<Rightarrow> int \<Rightarrow> page_id_t \<Rightarrow> int \<Rightarrow> BPlusTree" where
  "copy_slot t dst di src si =
     (let t1 = SetKeyAt t dst di (KeyAt t src si)
      in SetValueAt t1 dst di (ValueAt t1 src si))"

text \<open>\<open>for (j = from; j < n; j++) { p[j - 1] = p[j]; }\<close>\<close>

function shift_left :: "BPlusTree \<Rightarrow> page_id_t \<Rightarrow> int \<Rightarrow> int \<Rightarrow> BPlusTree" where
  "shift_left t pid j n =
     (if j < n
      then shift_left (copy_slot t pid (j - 1) pid j) pid (j + 1) n
      else t)"
  by pat_completeness auto
termination
  by (relation "measure (\<lambda>(t, pid, j, n). nat (n - j))") auto

text \<open>\<open>for (j = from; j >= i + 1; j--) { p[j] = p[j - 1]; }\<close>\<close>

function shift_right :: "BPlusTree \<Rightarrow> page_id_t \<Rightarrow> int \<Rightarrow> int \<Rightarrow> BPlusTree" where
  "shift_right t pid j i =
     (if j \<ge> i + 1
      then shift_right (copy_slot t pid j pid (j - 1)) pid (j - 1) i
      else t)"
  by pat_completeness auto
termination
  by (relation "measure (\<lambda>(t, pid, j, i). nat (j - i))") auto

text \<open>\<open>for (j = from; j < n; j++) { p[j] = p[j - 1]; }\<close>, the loop of the two
  borrow-from-the-left branches of \<open>Remove\<close>; it runs upwards.\<close>

function copy_up :: "BPlusTree \<Rightarrow> page_id_t \<Rightarrow> int \<Rightarrow> int \<Rightarrow> BPlusTree" where
  "copy_up t pid j n =
     (if j < n
      then copy_up (copy_slot t pid j pid (j - 1)) pid (j + 1) n
      else t)"
  by pat_completeness auto
termination
  by (relation "measure (\<lambda>(t, pid, j, n). nat (n - j))") auto

text \<open>\<open>for (i = from; i < m; i++) { dst[idx] = src[i]; idx++; }\<close>\<close>

function copy_slots :: "BPlusTree \<Rightarrow> page_id_t \<Rightarrow> page_id_t \<Rightarrow> int \<Rightarrow> int \<Rightarrow> int \<Rightarrow> BPlusTree" where
  "copy_slots t dst src i m idx =
     (if i < m
      then copy_slots (copy_slot t dst idx src i) dst src (i + 1) m (idx + 1)
      else t)"
  by pat_completeness auto
termination
  by (relation "measure (\<lambda>(t, dst, src, i, m, idx). nat (m - i))") auto

text \<open>The same with \<open>dst->IncreaseSize(1)\<close> before each copy.\<close>

function append_slots :: "BPlusTree \<Rightarrow> page_id_t \<Rightarrow> page_id_t \<Rightarrow> int \<Rightarrow> int \<Rightarrow> int \<Rightarrow> BPlusTree" where
  "append_slots t dst src i m idx =
     (if i < m
      then append_slots (copy_slot (IncreaseSize t dst 1) dst idx src i) dst src (i + 1) m (idx + 1)
      else t)"
  by pat_completeness auto
termination
  by (relation "measure (\<lambda>(t, dst, src, i, m, idx). nat (m - i))") auto

text \<open>The scan of a leaf for a key, from slot \<open>i\<close>: the first slot that holds it.\<close>

function find_key :: "BPlusTree \<Rightarrow> page_id_t \<Rightarrow> KeyType \<Rightarrow> int \<Rightarrow> int \<Rightarrow> int option" where
  "find_key t pid key i n =
     (if i < n then (if key = KeyAt t pid i then Some i else find_key t pid key (i + 1) n)
      else None)"
  by pat_completeness auto
termination
  by (relation "measure (\<lambda>(t, pid, key, i, n). nat (n - i))") auto

text \<open>The scan of an internal page, from slot \<open>i\<close>: the first slot whose key is above
  the key searched (the flag is set), or the value of \<open>i\<close> when the loop runs out.\<close>

function scan_internal :: "BPlusTree \<Rightarrow> page_id_t \<Rightarrow> KeyType \<Rightarrow> int \<Rightarrow> int \<Rightarrow> bool \<times> int" where
  "scan_internal t pid key i n =
     (if i < n then (if key < KeyAt t pid i then (True, i) else scan_internal t pid key (i + 1) n)
      else (False, i))"
  by pat_completeness auto
termination
  by (relation "measure (\<lambda>(t, pid, key, i, n). nat (n - i))") auto

text \<open>The child that the descent follows from an internal page.\<close>

definition child_for :: "BPlusTree \<Rightarrow> page_id_t \<Rightarrow> KeyType \<Rightarrow> page_id_t" where
  "child_for t pid key =
     (case scan_internal t pid key 1 (GetSize t pid) of
        (True, i) \<Rightarrow> ValueAt t pid (i - 1)
      | (False, i) \<Rightarrow> ValueAt t pid (GetSize t pid - 1))"

text \<open>\<open>for (i = from; i <= size; i++) { if (i != size && key > p[i]) continue; ...; break; }\<close>:
  the slot at which the loop inserts, if it gets to insert.\<close>

function insert_slot :: "BPlusTree \<Rightarrow> page_id_t \<Rightarrow> KeyType \<Rightarrow> int \<Rightarrow> int \<Rightarrow> int option" where
  "insert_slot t pid key i n =
     (if i \<le> n then (if i \<noteq> n \<and> key > KeyAt t pid i then insert_slot t pid key (i + 1) n else Some i)
      else None)"
  by pat_completeness auto
termination
  by (relation "measure (\<lambda>(t, pid, key, i, n). nat (n + 1 - i))") auto

text \<open>The body run at that slot: grow by one, move the tail up, write the pair.\<close>

definition insert_at :: "BPlusTree \<Rightarrow> page_id_t \<Rightarrow> int \<Rightarrow> KeyType \<Rightarrow> int \<Rightarrow> BPlusTree" where
  "insert_at t pid i key v =
     (let t1 = IncreaseSize t pid 1;
          t2 = shift_right t1 pid (GetSize t1 pid - 1) i
      in SetValueAt (SetKeyAt t2 pid i key) pid i v)"

definition insert_sorted :: "BPlusTree \<Rightarrow> page_id_t \<Rightarrow> int \<Rightarrow> KeyType \<Rightarrow> int \<Rightarrow> BPlusTree" where
  "insert_sorted t pid from key v =
     (case insert_slot t pid key from (GetSize t pid) of
        None \<Rightarrow> t
      | Some i \<Rightarrow> insert_at t pid i key v)"

section \<open>The B+ tree: IsEmpty and GetValue\<close>

definition IsEmpty :: "BPlusTree \<Rightarrow> error + bool" where
  "IsEmpty t =
     (if root_page_id t = INVALID_PAGE_ID then Inr True
      else if \<not> valid_page t (root_page_id t) then Inl BadPageId
      else if IsLeafPage t (root_page_id t) then Inr (GetSize t (root_page_id t) = 0)
      else Inr (GetSize t (root_page_id t) \<le> 1))"

text \<open>The \<open>while (true)\<close> of \<open>GetValue\<close>, \<open>root\<close> being the page \<open>pid\<close>. The result is
  the returned flag and what was pushed on \<open>result\<close>.\<close>

function GetValue_loop :: "nat \<Rightarrow> BPlusTree \<Rightarrow> page_id_t \<Rightarrow> KeyType \<Rightarrow> error + (bool \<times> ValueType list)" where
  "GetValue_loop 0 t pid key = Inl NoReturn"
| "GetValue_loop (Suc n) t pid key =
     (if \<not> valid_page t pid then Inl BadPageId
      else if IsLeafPage t pid then
        (case find_key t pid key 0 (GetSize t pid) of
           Some i \<Rightarrow> Inr (True, [ValueAt t pid i])
         | None \<Rightarrow> Inr (False, []))
      else GetValue_loop n t (child_for t pid key) key)"
  by pat_completeness auto
termination
  by (relation "measure (\<lambda>(n, t, pid, key). n)") auto

definition GetValue :: "BPlusTree \<Rightarrow> KeyType \<Rightarrow> error + (bool \<times> ValueType list)" where
  "GetValue t key =
     (if root_page_id t = INVALID_PAGE_ID then Inr (False, [])
      else GetValue_loop (fuel_of t) t (root_page_id t) key)"

section \<open>The B+ tree: Insert\<close>

text \<open>
  Step 1 of \<open>Insert\<close> and of \<open>Remove\<close>, the same loop in both: \<open>ws\<close> is
  \<open>ctx.write_set_\<close> and \<open>ps\<close> is \<open>ctx.position_set_\<close> (which only \<open>Remove\<close> keeps), both
  with their back at the head of the list; \<open>pid\<close> is the page \<open>root\<close> points to, already
  pushed. The position pushed is \<open>i - 1\<close> for the value of \<open>i\<close> at which the scan ended.
\<close>

function descend :: "nat \<Rightarrow> BPlusTree \<Rightarrow> page_id_t \<Rightarrow> KeyType \<Rightarrow> page_id_t list \<Rightarrow> int list
                 \<Rightarrow> error + (page_id_t list \<times> int list)" where
  "descend 0 t pid key ws ps = Inl NoReturn"
| "descend (Suc n) t pid key ws ps =
     (if IsLeafPage t pid then Inr (ws, ps)
      else
        (let child = child_for t pid key;
             i = snd (scan_internal t pid key 1 (GetSize t pid))
         in if \<not> valid_page t child then Inl BadPageId
            else descend n t child key (child # ws) ((i - 1) # ps)))"
  by pat_completeness auto
termination
  by (relation "measure (\<lambda>(n, t, pid, key, ws, ps). n)") auto

text \<open>\<open>ROOT_SPLIT\<close>: a new internal root over the old root and the page \<open>page_id\<close>.\<close>

definition root_split :: "BPlusTree \<Rightarrow> KeyType \<Rightarrow> page_id_t \<Rightarrow> BPlusTree" where
  "root_split t tmp_key page_id =
     (let (new_root_page_id, t1) = NewPageGuarded t;
          t2 = Init_internal t1 new_root_page_id (internal_max_size t1);
          t3 = SetValueAt t2 new_root_page_id 0 (root_page_id t2);
          t4 = t3\<lparr>root_page_id := new_root_page_id\<rparr>;
          t5 = IncreaseSize t4 new_root_page_id 1;
          t6 = SetKeyAt t5 new_root_page_id 1 tmp_key
      in SetValueAt t6 new_root_page_id 1 page_id)"

text \<open>\<open>INSERTION_END\<close>: the pair goes into the leaf.\<close>

definition insertion_end :: "BPlusTree \<Rightarrow> page_id_t \<Rightarrow> KeyType \<Rightarrow> ValueType \<Rightarrow> error + (bool \<times> BPlusTree)" where
  "insertion_end t leaf key v =
     (if \<not> IsLeafPage t leaf then Inl AssertionFailed
      else Inr (True, insert_sorted t leaf 0 key v))"

text \<open>Step 2, the split of the full leaf: the new page, its id and the key \<open>tmp_key\<close>.\<close>

definition split_leaf :: "BPlusTree \<Rightarrow> page_id_t \<Rightarrow> BPlusTree \<times> page_id_t \<times> KeyType" where
  "split_leaf t leaf =
     (let m = GetSize t leaf;
          tmp_key = KeyAt t leaf (c_div (m + 1) 2);
          (page_id, t1) = NewPageGuarded t;
          t2 = Init_leaf t1 page_id (leaf_max_size t1);
          t3 = IncreaseSize t2 page_id (c_div m 2);
          t4 = copy_slots t3 page_id leaf (c_div (m + 1) 2) m 0;
          t5 = IncreaseSize t4 leaf (c_div (- m) 2);
          t6 = SetNextPageId t5 page_id (GetNextPageId t5 leaf);
          t7 = SetNextPageId t6 leaf page_id
      in (t7, page_id, tmp_key))"

text \<open>
  The split of the full internal page \<open>root\<close> in the loop "split up", up to and with the
  insertion of the incoming pair on its side. The result is the store, the id of the new
  page and the key \<open>tmp_key\<close> that goes up.
\<close>

definition split_internal :: "BPlusTree \<Rightarrow> page_id_t \<Rightarrow> KeyType \<Rightarrow> page_id_t
                               \<Rightarrow> error + (BPlusTree \<times> page_id_t \<times> KeyType)" where
  "split_internal t root insert_key0 insert_val0 =
     (let m = GetSize t root in
      if \<not> m > 0 then Inl AssertionFailed
      else
        (let middle0 = c_div (m + 1) 2;
             insert_small_than_tmp_key = (insert_key0 < KeyAt t root middle0);
             middle = (if insert_small_than_tmp_key then c_div m 2 else middle0);
             special = (insert_small_than_tmp_key \<and> insert_key0 \<ge> KeyAt t root middle);
             tmp_key = (if special then insert_key0 else KeyAt t root middle);
             insert_key = (if special then KeyAt t root middle else insert_key0);
             (page_id, t1) = NewPageGuarded t;
             t2 = Init_internal t1 page_id (internal_max_size t1);
             t3 = (if \<not> special then SetValueAt t2 page_id 0 (ValueAt t2 root middle)
                   else SetValueAt t2 page_id 0 insert_val0);
             insert_val = (if \<not> special then insert_val0 else ValueAt t3 root middle);
             t5 = append_slots t3 page_id root (middle + 1) m 1;
             idx = (if middle + 1 < m then 1 + (m - (middle + 1)) else 1);
             t6 = IncreaseSize t5 root (- idx);
             insert_page = (if \<not> insert_small_than_tmp_key then page_id else root)
         in (case insert_slot t6 insert_page insert_key 1 (GetSize t6 insert_page) of
               None \<Rightarrow> Inr (t6, page_id, tmp_key)
             | Some i \<Rightarrow>
                 (if \<not> GetSize t6 insert_page + 1 > 1 then Inl AssertionFailed
                  else Inr (insert_at t6 insert_page i insert_key insert_val, page_id, tmp_key)))))"

text \<open>
  The loop "split up": \<open>root\<close> is the page that receives \<open>(insert_key, insert_val)\<close>, \<open>ws\<close>
  the write set above it. \<open>None\<close> in the result says that the loop ended at
  \<open>goto INSERTION_END\<close>, \<open>Some (tmp_key, page_id)\<close> that it broke out to \<open>ROOT_SPLIT\<close>.
\<close>

function split_up :: "BPlusTree \<Rightarrow> page_id_t \<Rightarrow> page_id_t list \<Rightarrow> KeyType \<Rightarrow> page_id_t
                  \<Rightarrow> error + (BPlusTree \<times> (KeyType \<times> page_id_t) option)" where
  "split_up t root ws insert_key insert_val =
     (if GetSize t root < GetMaxSize t root then
        (if IsLeafPage t root then Inl AssertionFailed
         else if \<not> GetSize t root > 1 then Inl AssertionFailed
         else Inr (insert_sorted t root 1 insert_key insert_val, None))
      else
        (case split_internal t root insert_key insert_val of
           Inl e \<Rightarrow> Inl e
         | Inr (t1, page_id, tmp_key) \<Rightarrow>
             (case ws of
                [] \<Rightarrow> Inr (t1, Some (tmp_key, page_id))
              | parent # ws' \<Rightarrow> split_up t1 parent ws' tmp_key page_id)))"
  by pat_completeness auto
termination
  by (relation "measure (\<lambda>(t, root, ws, insert_key, insert_val). length ws)") auto

definition Insert :: "BPlusTree \<Rightarrow> KeyType \<Rightarrow> ValueType \<Rightarrow> error + (bool \<times> BPlusTree)" where
  "Insert t key v =
     (if root_page_id t = INVALID_PAGE_ID then
        (let (pid, t1) = NewPageGuarded t;
             t2 = t1\<lparr>root_page_id := pid\<rparr>;
             t3 = Init_leaf t2 pid (leaf_max_size t2);
             t4 = IncreaseSize t3 pid 1;
             t5 = SetKeyAt t4 pid 0 key
         in Inr (True, SetValueAt t5 pid 0 v))
      else if \<not> valid_page t (root_page_id t) then Inl BadPageId
      else
        (case descend (fuel_of t) t (root_page_id t) key [root_page_id t] [] of
           Inl e \<Rightarrow> Inl e
         | Inr (ws0, ps) \<Rightarrow>
             (let leaf = hd ws0; ws = tl ws0 in
              if find_key t leaf key 0 (GetSize t leaf) \<noteq> None then Inr (False, t)
              else if GetSize t leaf = GetMaxSize t leaf then
                (if \<not> GetSize t leaf > 0 then Inl AssertionFailed
                 else
                   (let (t1, page_id, tmp_key) = split_leaf t leaf;
                        leaf1 = (if key > tmp_key then page_id else leaf)
                    in (case ws of
                          [] \<Rightarrow> insertion_end (root_split t1 tmp_key page_id) leaf1 key v
                        | root # ws' \<Rightarrow>
                            (case split_up t1 root ws' tmp_key page_id of
                               Inl e \<Rightarrow> Inl e
                             | Inr (t2, None) \<Rightarrow> insertion_end t2 leaf1 key v
                             | Inr (t2, Some (k, p)) \<Rightarrow>
                                 insertion_end (root_split t2 k p) leaf1 key v))))
              else insertion_end t leaf key v)))"

section \<open>The B+ tree: Remove\<close>

text \<open>The deletion of the key from the leaf, if it is there.\<close>

definition leaf_delete :: "BPlusTree \<Rightarrow> page_id_t \<Rightarrow> KeyType \<Rightarrow> BPlusTree" where
  "leaf_delete t leaf key =
     (case find_key t leaf key 0 (GetSize t leaf) of
        None \<Rightarrow> t
      | Some i \<Rightarrow> IncreaseSize (shift_left t leaf (i + 1) (GetSize t leaf)) leaf (- 1))"

text \<open>
  The siblings of the child at slot \<open>pos\<close> of \<open>parent\<close>, as the code fetches them:
  \<open>prev\<close>, \<open>next\<close> and \<open>bigger_size\<close>. The flag says which kind of page the siblings are
  read as; the slot arrays of the two kinds are laid out differently in the frame, so a page
  of the other kind is reported as \<open>WrongPageKind\<close> instead of being read.
\<close>

definition fetch_sibling :: "BPlusTree \<Rightarrow> bool \<Rightarrow> page_id_t \<Rightarrow> error + page_id_t" where
  "fetch_sibling t as_leaf pid =
     (if \<not> valid_page t pid then Inl BadPageId
      else if IsLeafPage t pid \<noteq> as_leaf then Inl WrongPageKind
      else Inr pid)"

definition fetch_siblings :: "BPlusTree \<Rightarrow> bool \<Rightarrow> page_id_t \<Rightarrow> int
                               \<Rightarrow> error + (page_id_t option \<times> page_id_t option \<times> int)" where
  "fetch_siblings t as_leaf parent pos =
     (if pos = GetSize t parent - 1 then
        (case fetch_sibling t as_leaf (ValueAt t parent (pos - 1)) of
           Inl e \<Rightarrow> Inl e
         | Inr prev \<Rightarrow> Inr (Some prev, None, GetSize t prev))
      else if pos = 0 then
        (case fetch_sibling t as_leaf (ValueAt t parent (pos + 1)) of
           Inl e \<Rightarrow> Inl e
         | Inr next \<Rightarrow> Inr (None, Some next, GetSize t next))
      else
        (case fetch_sibling t as_leaf (ValueAt t parent (pos - 1)) of
           Inl e \<Rightarrow> Inl e
         | Inr prev \<Rightarrow>
             (case fetch_sibling t as_leaf (ValueAt t parent (pos + 1)) of
                Inl e \<Rightarrow> Inl e
              | Inr next \<Rightarrow> Inr (Some prev, Some next, max (GetSize t next) (GetSize t prev)))))"

text \<open>\<open>next == nullptr || (prev != nullptr && next->GetSize() <= prev->GetSize())\<close>\<close>

definition steal_from_prev :: "BPlusTree \<Rightarrow> page_id_t option \<Rightarrow> page_id_t option \<Rightarrow> bool" where
  "steal_from_prev t prev next =
     (case next of
        None \<Rightarrow> True
      | Some n \<Rightarrow> (case prev of None \<Rightarrow> False | Some p \<Rightarrow> GetSize t n \<le> GetSize t p))"

text \<open>The loop "update parent": every page left on the write set whose key at the slot
  followed equals the key removed gets \<open>update_key\<close> there.\<close>

fun update_parents :: "BPlusTree \<Rightarrow> page_id_t list \<Rightarrow> int list \<Rightarrow> KeyType \<Rightarrow> KeyType \<Rightarrow> BPlusTree" where
  "update_parents t (parent # ws) (internal_position # ps) key update_key =
     update_parents
       (if KeyAt t parent internal_position = key
        then SetKeyAt t parent internal_position update_key else t)
       ws ps key update_key"
| "update_parents t ws ps key update_key = t"

text \<open>The leaf takes one entry from the bigger sibling; \<open>root\<close> is its parent and
  \<open>leaf_position\<close> its slot there.\<close>

definition steal_leaf :: "BPlusTree \<Rightarrow> page_id_t \<Rightarrow> page_id_t \<Rightarrow> int \<Rightarrow> page_id_t option
                           \<Rightarrow> page_id_t option \<Rightarrow> error + BPlusTree" where
  "steal_leaf t leaf root leaf_position prev next =
     (let t1 = IncreaseSize t leaf 1 in
      if steal_from_prev t1 prev next then
        (case prev of
           None \<Rightarrow> Inl AssertionFailed
         | Some p \<Rightarrow>
             (let t2 = copy_up t1 leaf 1 (GetSize t1 leaf);
                  t3 = SetKeyAt t2 leaf 0 (KeyAt t2 p (GetSize t2 p - 1));
                  t4 = SetValueAt t3 leaf 0 (ValueAt t3 p (GetSize t3 p - 1))
              in Inr (IncreaseSize t4 p (- 1))))
      else
        (case next of
           None \<Rightarrow> Inl AssertionFailed
         | Some n \<Rightarrow>
             (let t2 = SetKeyAt t1 leaf (GetSize t1 leaf - 1) (KeyAt t1 n 0);
                  t3 = SetValueAt t2 leaf (GetSize t2 leaf - 1) (ValueAt t2 n 0);
                  t4 = shift_left t3 n 1 (GetSize t3 n);
                  t5 = IncreaseSize t4 n (- 1)
              in Inr (SetKeyAt t5 root (leaf_position + 1) (KeyAt t5 n 0)))))"

definition steal_leaf_and_update :: "BPlusTree \<Rightarrow> page_id_t \<Rightarrow> page_id_t \<Rightarrow> int \<Rightarrow> page_id_t option
         \<Rightarrow> page_id_t option \<Rightarrow> page_id_t list \<Rightarrow> int list \<Rightarrow> KeyType \<Rightarrow> error + BPlusTree" where
  "steal_leaf_and_update t leaf root leaf_position prev next ws ps key =
     (case steal_leaf t leaf root leaf_position prev next of
        Inl e \<Rightarrow> Inl e
      | Inr t1 \<Rightarrow>
          (let t2 = (if leaf_position > 0 then SetKeyAt t1 root leaf_position (KeyAt t1 leaf 0) else t1)
           in Inr (update_parents t2 ws ps key (KeyAt t2 leaf 0))))"

text \<open>
  The merge of two pages of one parent: which page is kept, which is emptied into it and
  the key to delete from the parent. With the node at slot \<open>pos\<close> not the leftmost the
  left sibling is kept, otherwise the node itself.
\<close>

definition merge_pair :: "BPlusTree \<Rightarrow> page_id_t \<Rightarrow> page_id_t \<Rightarrow> int \<Rightarrow> page_id_t option
                            \<Rightarrow> page_id_t option \<Rightarrow> error + (page_id_t \<times> page_id_t \<times> KeyType)" where
  "merge_pair t node parent pos prev next =
     (if pos \<noteq> 0 then
        (case prev of
           None \<Rightarrow> Inl BadPageId
         | Some p \<Rightarrow> Inr (p, node, KeyAt t parent pos))
      else
        (case next of
           None \<Rightarrow> Inl BadPageId
         | Some n \<Rightarrow> Inr (node, n, KeyAt t parent (pos + 1))))"

text \<open>The merge of two leaves. The loop that appends re-reads the size of the page it
  empties, so it never ends when both pointers are the same page.\<close>

definition merge_leaf :: "BPlusTree \<Rightarrow> page_id_t \<Rightarrow> page_id_t \<Rightarrow> error + BPlusTree" where
  "merge_leaf t merge_to merge_from =
     (if merge_to = merge_from then Inl NoReturn
      else
        (let t1 = append_slots t merge_to merge_from 0 (GetSize t merge_from) (GetSize t merge_to);
             t2 = SetNextPageId t1 merge_to (GetNextPageId t1 merge_from)
         in Inr (IncreaseSize t2 merge_from (GetSize t2 merge_from))))"

text \<open>The merge of two internal pages: the key deleted from the parent comes down
  with \<open>child[0]\<close> of the page emptied.\<close>

definition merge_internal :: "BPlusTree \<Rightarrow> page_id_t \<Rightarrow> page_id_t \<Rightarrow> KeyType \<Rightarrow> error + BPlusTree" where
  "merge_internal t merge_to merge_from delete_key =
     (if merge_to = merge_from then Inl NoReturn
      else
        (let idx = GetSize t merge_to;
             t1 = IncreaseSize t merge_to 1;
             t2 = SetKeyAt t1 merge_to idx delete_key;
             t3 = SetValueAt t2 merge_to idx (ValueAt t2 merge_from 0);
             t4 = append_slots t3 merge_to merge_from 1 (GetSize t3 merge_from) (idx + 1)
         in Inr (IncreaseSize t4 merge_from (GetSize t4 merge_from))))"

text \<open>The internal page \<open>root\<close> takes one entry from the bigger sibling through the
  parent.\<close>

definition steal_internal :: "BPlusTree \<Rightarrow> page_id_t \<Rightarrow> page_id_t \<Rightarrow> int \<Rightarrow> page_id_t option
                               \<Rightarrow> page_id_t option \<Rightarrow> KeyType \<Rightarrow> error + BPlusTree" where
  "steal_internal t root parent internal_position prev next delete_key =
     (if steal_from_prev t prev next then
        (case prev of
           None \<Rightarrow> Inl AssertionFailed
         | Some p \<Rightarrow>
             (if delete_key = KeyAt t parent internal_position then Inl AssertionFailed
              else
                (let t1 = IncreaseSize t root 1;
                     t2 = copy_up t1 root 2 (GetSize t1 root);
                     t3 = SetKeyAt t2 root 1 (KeyAt t2 parent internal_position);
                     t4 = SetValueAt t3 root 1 (ValueAt t3 root 0);
                     t5 = SetValueAt t4 root 0 (ValueAt t4 p (GetSize t4 p - 1));
                     t6 = SetKeyAt t5 parent internal_position (KeyAt t5 p (GetSize t5 p - 1))
                 in Inr (IncreaseSize t6 p (- 1)))))
      else
        (case next of
           None \<Rightarrow> Inl AssertionFailed
         | Some n \<Rightarrow>
             (let t1 = IncreaseSize t root 1;
                  t2 = SetKeyAt t1 root (GetSize t1 root - 1) (KeyAt t1 parent (internal_position + 1));
                  t3 = SetValueAt t2 root (GetSize t2 root - 1) (ValueAt t2 n 0);
                  t4 = SetValueAt t3 n 0 (ValueAt t3 n 1);
                  t5 = SetKeyAt t4 parent (internal_position + 1) (KeyAt t4 n 1);
                  t6 = shift_left t5 n 2 (GetSize t5 n)
              in Inr (IncreaseSize t6 n (- 1)))))"

text \<open>The deletion of \<open>delete_key\<close> from the internal page \<open>root\<close>; the assertion
  \<open>is_find\<close> fails when it is not among the keys from slot 1 on.\<close>

definition internal_delete :: "BPlusTree \<Rightarrow> page_id_t \<Rightarrow> KeyType \<Rightarrow> error + BPlusTree" where
  "internal_delete t root delete_key =
     (case find_key t root delete_key 1 (GetSize t root) of
        None \<Rightarrow> Inl AssertionFailed
      | Some i \<Rightarrow> Inr (IncreaseSize (shift_left t root (i + 1) (GetSize t root)) root (- 1)))"

text \<open>
  The \<open>while (true)\<close> after \<open>MERGE_NODE\<close>: \<open>root\<close> is the page that loses
  \<open>delete_key\<close>, \<open>ws\<close> and \<open>ps\<close> what is left of the write set and of the position set.
\<close>

function merge_loop :: "BPlusTree \<Rightarrow> page_id_t \<Rightarrow> page_id_t list \<Rightarrow> int list \<Rightarrow> KeyType \<Rightarrow> KeyType
                          \<Rightarrow> KeyType \<Rightarrow> error + BPlusTree" where
  "merge_loop t root ws ps delete_key key update_key =
     (case internal_delete t root delete_key of
        Inl e \<Rightarrow> Inl e
      | Inr t1 \<Rightarrow>
          (case ws of
             [] \<Rightarrow>
               Inr (if GetSize t1 root = 1 then t1\<lparr>root_page_id := ValueAt t1 root 0\<rparr> else t1)
           | parent # ws' \<Rightarrow>
               (case ps of
                  [] \<Rightarrow> Inl AssertionFailed
                | internal_position # ps' \<Rightarrow>
                    (case fetch_siblings t1 False parent internal_position of
                       Inl e \<Rightarrow> Inl e
                     | Inr (prev, next, bigger_size) \<Rightarrow>
                         (if bigger_size - 1 < GetMinSize t1 root then
                            (case merge_pair t1 root parent internal_position prev next of
                               Inl e \<Rightarrow> Inl e
                             | Inr (merge_to, merge_from, delete_key') \<Rightarrow>
                                 (case merge_internal t1 merge_to merge_from delete_key' of
                                    Inl e \<Rightarrow> Inl e
                                  | Inr t2 \<Rightarrow>
                                      merge_loop t2 parent ws' ps' delete_key' key update_key))
                          else
                            (case steal_internal t1 root parent internal_position prev next delete_key of
                               Inl e \<Rightarrow> Inl e
                             | Inr t2 \<Rightarrow> Inr (update_parents t2 ws' ps' key update_key)))))))"
  by pat_completeness auto
termination
  by (relation "measure (\<lambda>(t, root, ws, ps, delete_key, key, update_key). length ws)") auto

definition Remove :: "BPlusTree \<Rightarrow> KeyType \<Rightarrow> error + BPlusTree" where
  "Remove t key =
     (if root_page_id t = INVALID_PAGE_ID then Inr t
      else if \<not> valid_page t (root_page_id t) then Inl BadPageId
      else
        (case descend (fuel_of t) t (root_page_id t) key [root_page_id t] [] of
           Inl e \<Rightarrow> Inl e
         | Inr (ws0, ps0) \<Rightarrow>
             (let leaf = hd ws0; ws = tl ws0;
                  t1 = leaf_delete t leaf key
              in if GetSize t1 leaf \<ge> GetMinSize t1 leaf then Inr t1
                 else
                   (case ws of
                      [] \<Rightarrow>
                        (if GetSize t1 leaf > 0 then Inr t1
                         else Inr (t1\<lparr>root_page_id := INVALID_PAGE_ID\<rparr>))
                    | root # ws' \<Rightarrow>
                        (case ps0 of
                           [] \<Rightarrow> Inl AssertionFailed
                         | leaf_position # ps \<Rightarrow>
                             (case fetch_siblings t1 True root leaf_position of
                                Inl e \<Rightarrow> Inl e
                              | Inr (prev, next, bigger_size) \<Rightarrow>
                                  (if bigger_size - 1 < GetMinSize t1 leaf then
                                     (case merge_pair t1 leaf root leaf_position prev next of
                                        Inl e \<Rightarrow> Inl e
                                      | Inr (merge_to, merge_from, delete_key) \<Rightarrow>
                                          (case merge_leaf t1 merge_to merge_from of
                                             Inl e \<Rightarrow> Inl e
                                           | Inr t2 \<Rightarrow>
                                               merge_loop t2 root ws' ps delete_key key
                                                 (KeyAt t2 merge_to 0)))
                                   else
                                     steal_leaf_and_update t1 leaf root leaf_position prev next
                                       ws' ps key)))))))"

section \<open>Sequences of operations\<close>

datatype op = Ins KeyType ValueType | Rem KeyType

text \<open>The operations one after the other on the tree; the flags that the inserts
  returned are collected, the first at the head.\<close>

fun run_ops :: "BPlusTree \<Rightarrow> op list \<Rightarrow> error + (bool list \<times> BPlusTree)" where
  "run_ops t [] = Inr ([], t)"
| "run_ops t (Ins k v # ops) =
     (case Insert t k v of
        Inl e \<Rightarrow> Inl e
      | Inr (b, t1) \<Rightarrow>
          (case run_ops t1 ops of Inl e \<Rightarrow> Inl e | Inr (bs, t2) \<Rightarrow> Inr (b # bs, t2)))"
| "run_ops t (Rem k # ops) =
     (case Remove t k of
        Inl e \<Rightarrow> Inl e
      | Inr t1 \<Rightarrow> run_ops t1 ops)"

section \<open>Properties of the trie\<close>

lemma walk_abc_after_insert:
  "Insert_trie Trie_new ''abc'' (IntV 7) =
     Inr (True, TrieNode (CHR 0x00) False None
       [(CHR ''a'', TrieNode (CHR ''a'') False None
          [(CHR ''b'', TrieNode (CHR ''b'') False None
             [(CHR ''c'', TrieNode (CHR ''c'') True (Some (IntV 7)) [])])])])"
  by (simp add: Insert_trie_def Trie_new_def GetChildNode_def InsertChildNode_def
      StoreChildNode_def)

text \<open>
  C9 (the code departs from the claim). After \<open>Insert("abc", 7)\<close> and
  \<open>Insert("abcd", 9)\<close>, \<open>Remove("abc")\<close> returns true and \<open>"abcd"\<close> is still
  retrievable, but the node of \<open>"abc"\<close> is moved out of the map and put back as it is:
  it keeps its terminal marking and its value, so \<open>GetValue<int>("abc")\<close> still
  succeeds with 7 and a second \<open>Remove("abc")\<close> returns true again.
\<close>

theorem Remove_trie_terminal_with_children_kept:
  "(case Insert_trie Trie_new ''abc'' (IntV 7) of
      Inl e \<Rightarrow> False
    | Inr (b1, t1) \<Rightarrow>
        (case Insert_trie t1 ''abcd'' (IntV 9) of
           Inl e \<Rightarrow> False
         | Inr (b2, t2) \<Rightarrow>
             (case Remove_trie t2 ''abc'' of
                Inl e \<Rightarrow> False
              | Inr (b3, t3) \<Rightarrow>
                  b1 \<and> b2 \<and> b3 \<and> t3 = t2
                  \<and> GetValue_trie TInt t3 ''abcd'' = (IntV 9, True)
                  \<and> GetValue_trie TInt t3 ''abc'' = (IntV 7, True)
                  \<and> (case Remove_trie t3 ''abc'' of Inl e \<Rightarrow> False | Inr (b4, t4) \<Rightarrow> b4))))"
  by (simp add: Insert_trie_def Remove_trie_def Trie_new_def GetChildNode_def
      InsertChildNode_def RemoveChildNode_def StoreChildNode_def GetValue_trie_def
      IsEndNode_def HasChildren_def)

text \<open>
  C10. \<open>GetValue<T>(key, &success)\<close> fails with the default-constructed \<open>T\<close> on the
  empty key, on a missing path, on a node that is not terminal and on a stored value
  whose type is not \<open>T\<close>; on a terminal node holding a value of type \<open>T\<close> it succeeds
  with that value. After \<open>Insert("abc", 7)\<close>, \<open>GetValue<string>("abc")\<close> fails.
\<close>

theorem GetValue_trie_cases:
  "(key = [] \<longrightarrow> GetValue_trie T root key = (default_of T, False))
   \<and> (walk root key = None \<longrightarrow> GetValue_trie T root key = (default_of T, False))
   \<and> (\<forall>t. walk root key = Some t \<and> \<not> IsEndNode t \<longrightarrow>
          GetValue_trie T root key = (default_of T, False))
   \<and> (\<forall>t v. walk root key = Some t \<and> node_value t = Some v \<and> type_of v \<noteq> T \<longrightarrow>
          GetValue_trie T root key = (default_of T, False))
   \<and> (\<forall>t v. key \<noteq> [] \<and> walk root key = Some t \<and> IsEndNode t
            \<and> node_value t = Some v \<and> type_of v = T \<longrightarrow>
          GetValue_trie T root key = (v, True))
   \<and> (case Insert_trie Trie_new ''abc'' (IntV 7) of
         Inl e \<Rightarrow> False
       | Inr (b, t) \<Rightarrow> b \<and> GetValue_trie TStr t ''abc'' = (StrV [], False)
                        \<and> GetValue_trie TInt t ''abc'' = (IntV 7, True))"
  by (auto simp add: GetValue_trie_def walk_abc_after_insert GetChildNode_def IsEndNode_def
      split: option.splits)

theorem GetValue_trie_cases_witness:
  "walk (TrieNode (CHR 0x00) False None
          [(CHR ''a'', TrieNode (CHR ''a'') True (Some (IntV 7)) [])]) ''a''
     = Some (TrieNode (CHR ''a'') True (Some (IntV 7)) [])
   \<and> GetValue_trie TInt (TrieNode (CHR 0x00) False None
          [(CHR ''a'', TrieNode (CHR ''a'') True (Some (IntV 7)) [])]) ''a'' = (IntV 7, True)
   \<and> GetValue_trie TStr (TrieNode (CHR 0x00) False None
          [(CHR ''a'', TrieNode (CHR ''a'') True (Some (IntV 7)) [])]) ''a'' = (StrV [], False)
   \<and> walk (TrieNode (CHR 0x00) False None
          [(CHR ''a'', TrieNode (CHR ''a'') True (Some (IntV 7)) [])]) ''b'' = None
   \<and> GetValue_trie TInt (TrieNode (CHR 0x00) False None
          [(CHR ''a'', TrieNode (CHR ''a'') True (Some (IntV 7)) [])]) ''b'' = (IntV 0, False)
   \<and> GetValue_trie TInt (TrieNode (CHR 0x00) False None
          [(CHR ''a'', TrieNode (CHR ''a'') True (Some (IntV 7)) [])]) [] = (IntV 0, False)"
proof -
  let ?r = "TrieNode (CHR 0x00) False None
          [(CHR ''a'', TrieNode (CHR ''a'') True (Some (IntV 7)) [])]"
  let ?n = "TrieNode (CHR ''a'') True (Some (IntV 7)) []"
  have w: "walk ?r ''a'' = Some ?n" by (simp add: GetChildNode_def)
  have w2: "walk ?r ''b'' = None" by (simp add: GetChildNode_def)
  have e: "IsEndNode ?n" by (simp add: IsEndNode_def)
  from GetValue_trie_cases [of "''a''" TInt ?r] w e
  have a: "GetValue_trie TInt ?r ''a'' = (IntV 7, True)" by simp
  from GetValue_trie_cases [of "''a''" TStr ?r] w
  have b: "GetValue_trie TStr ?r ''a'' = (StrV [], False)" by simp
  from GetValue_trie_cases [of "''b''" TInt ?r] w2
  have c: "GetValue_trie TInt ?r ''b'' = (IntV 0, False)" by simp
  from GetValue_trie_cases [of "[]" TInt ?r]
  have d: "GetValue_trie TInt ?r [] = (IntV 0, False)" by simp
  show ?thesis using w w2 a b c d by simp
qed

end
